theory Spec2Isabelle
  imports Main
begin

section \<open>CldrDateTimeFormatterBuilder: values, errors and the builder object\<close>

text \<open>
  The source file is \<^verbatim>\<open>CldrDateTimeFormatterBuilder.js\<close>: a class extending
  \<^verbatim>\<open>DateTimeFormatterBuilder\<close> with \<^verbatim>\<open>appendLocalizedOffset\<close>, \<^verbatim>\<open>appendZoneText\<close>,
  \<^verbatim>\<open>appendText\<close> and its three forms \<^verbatim>\<open>appendTextField\<close>, \<^verbatim>\<open>appendTextFieldStyle\<close>,
  \<^verbatim>\<open>appendTextFieldMap\<close>. The methods are dynamically typed: an argument may be
  \<^verbatim>\<open>undefined\<close>, \<^verbatim>\<open>null\<close>, a \<^verbatim>\<open>ChronoField\<close>, a \<^verbatim>\<open>TextStyle\<close>, or anything else.
\<close>

text \<open>Modelled from the spec: the \<^verbatim>\<open>TextStyle\<close> enumeration of js-joda, which the source
  imports and of which it names \<^verbatim>\<open>TextStyle.FULL\<close>; the spec (section 3) lists the styles
  FULL, FULL_STANDALONE, SHORT, SHORT_STANDALONE, NARROW, NARROW_STANDALONE.\<close>

datatype TextStyle = FULL | FULL_STANDALONE | SHORT | SHORT_STANDALONE | NARROW | NARROW_STANDALONE

text \<open>Modelled from the spec: \<^verbatim>\<open>ChronoField\<close>, imported from js-joda; the spec (section 3)
  calls a field an opaque identifier for a calendar unit. The identifier is kept as a name.\<close>

datatype ChronoField = ChronoField string

text \<open>A value-to-text map as the documentation of \<^verbatim>\<open>appendTextFieldMap\<close> describes it
  (\<^verbatim>\<open>map.put(1, "JNY")\<close>): entries in insertion order.\<close>

type_synonym TextMapping = "(int \<times> string) list"

text \<open>The JavaScript values a caller can pass to the methods.\<close>

datatype jsval =
    Undefined
  | Null
  | ChronoFieldV ChronoField
  | TextStyleV TextStyle
  | ObjectV TextMapping
  | NumberV int
  | StringV string

text \<open>The two constructors the source tests with \<^verbatim>\<open>instanceof\<close>.\<close>

datatype jsclass = ChronoFieldC | TextStyleC

fun instanceof :: "jsval \<Rightarrow> jsclass \<Rightarrow> bool" where
  "instanceof (ChronoFieldV f) ChronoFieldC = True"
| "instanceof (TextStyleV t) TextStyleC = True"
| "instanceof v c = False"

text \<open>
  Exceptions as values. \<^verbatim>\<open>IllegalArgumentException\<close> is the class the source itself throws
  (lines 22, 26 and 135), with its message. \<^verbatim>\<open>InvalidArgumentError\<close> is the failure of the
  argument checks \<^verbatim>\<open>requireNonNull\<close> and \<^verbatim>\<open>requireInstance\<close>; it carries the cause and the
  parameter name the source passes to the check. \<^verbatim>\<open>InvalidMappingError\<close> and
  \<^verbatim>\<open>UnsupportedStyleError\<close> belong to the text store and the custom-map provider of the spec.
\<close>

datatype cause = NullOrMissing | WrongKind

datatype error =
    IllegalArgumentException string
  | InvalidArgumentError cause string
  | InvalidMappingError
  | UnsupportedStyleError

text \<open>The message of the three \<^verbatim>\<open>throw\<close> statements of the source. The spec names an
  \<^verbatim>\<open>IllegalArgumentException\<close> carrying this message \<^verbatim>\<open>NotImplementedError\<close>.\<close>

definition not_implemented_msg :: string where
  "not_implemented_msg = ''js-joda-locale: Pattern using (localized) text not implemented yet!''"

text \<open>Modelled from the spec: \<^verbatim>\<open>requireNonNull\<close> of the module \<^verbatim>\<open>../../assert\<close>, which is not
  part of the source at hand. Spec section 7: \<^verbatim>\<open>InvalidArgumentError\<close> is raised for a
  "null/missing required argument"; otherwise the check passes and execution continues.\<close>

definition requireNonNull :: "jsval \<Rightarrow> string \<Rightarrow> error + jsval" where
  "requireNonNull v parameterName =
     (if v = Null \<or> v = Undefined then Inl (InvalidArgumentError NullOrMissing parameterName)
      else Inr v)"

text \<open>Modelled from the spec: \<^verbatim>\<open>requireInstance\<close> of the module \<^verbatim>\<open>../../assert\<close>, which is not
  part of the source at hand. Spec sections 4.4 and 7: an argument of the "wrong kind/value for
  field/style" fails with \<^verbatim>\<open>InvalidArgumentError\<close>.\<close>

definition requireInstance :: "jsval \<Rightarrow> jsclass \<Rightarrow> string \<Rightarrow> error + jsval" where
  "requireInstance v c parameterName =
     (if instanceof v c then Inr v else Inl (InvalidArgumentError WrongKind parameterName))"

text \<open>The text provider a printer/parser is wired to: \<^verbatim>\<open>new CldrDateTimeTextProvider()\<close> at
  line 93 (the StandardTextProvider of the spec, backed by the locale data), and the
  CustomMapTextProvider of the spec, backed by one caller-supplied map.\<close>

datatype provider = CldrDateTimeTextProvider | CustomMapTextProvider TextMapping

text \<open>\<^verbatim>\<open>new TextPrinterParser(field, textStyle, provider)\<close>: the constructor stores the
  arguments it is given.\<close>

datatype printer_parser = TextPrinterParser jsval jsval provider

text \<open>
  The builder is a mutable object and the methods return \<^verbatim>\<open>this\<close>, so objects live in a
  store: an address names a builder, and the store gives each builder's state. Of the state of
  \<^verbatim>\<open>DateTimeFormatterBuilder\<close> only the sequence of appended printer/parsers matters here.
\<close>

type_synonym addr = nat

record builder =
  printerParsers :: "printer_parser list"

type_synonym store = "addr \<Rightarrow> builder"

text \<open>The outcome of a method call: the exception thrown or the value returned, and the
  store as the call leaves it.\<close>

type_synonym outcome = "(error + addr) \<times> store"

text \<open>Modelled from the spec: \<^verbatim>\<open>_appendInternal\<close> of the base class
  \<^verbatim>\<open>DateTimeFormatterBuilder\<close> of js-joda, which is not part of the source at hand. Spec
  section 4.4: the operation "appends a Field Text Printer/Parser into a formatter under
  construction"; the printer/parser goes to the end of the receiver's sequence.\<close>

definition appendInternal :: "store \<Rightarrow> addr \<Rightarrow> printer_parser \<Rightarrow> store" where
  "appendInternal s this pp =
     s(this := (s this)\<lparr>printerParsers := printerParsers (s this) @ [pp]\<rparr>)"

section \<open>The methods of CldrDateTimeFormatterBuilder\<close>

text \<open>Lines 21-23.\<close>

definition appendLocalizedOffset :: "store \<Rightarrow> addr \<Rightarrow> outcome" where
  "appendLocalizedOffset s this = (Inl (IllegalArgumentException not_implemented_msg), s)"

text \<open>Lines 25-27.\<close>

definition appendZoneText :: "store \<Rightarrow> addr \<Rightarrow> outcome" where
  "appendZoneText s this = (Inl (IllegalArgumentException not_implemented_msg), s)"

text \<open>Lines 88-95: four checks in the source's order, then the printer/parser is appended
  and \<^verbatim>\<open>this\<close> is returned.\<close>

definition appendTextFieldStyle :: "store \<Rightarrow> addr \<Rightarrow> jsval \<Rightarrow> jsval \<Rightarrow> outcome" where
  "appendTextFieldStyle s this field textStyle =
     (case requireNonNull field ''field'' of Inl e \<Rightarrow> (Inl e, s) | Inr _ \<Rightarrow>
     (case requireInstance field ChronoFieldC ''field'' of Inl e \<Rightarrow> (Inl e, s) | Inr _ \<Rightarrow>
     (case requireNonNull textStyle ''textStyle'' of Inl e \<Rightarrow> (Inl e, s) | Inr _ \<Rightarrow>
     (case requireInstance textStyle TextStyleC ''textStyle'' of Inl e \<Rightarrow> (Inl e, s) | Inr _ \<Rightarrow>
        (Inr this,
         appendInternal s this (TextPrinterParser field textStyle CldrDateTimeTextProvider))))))"

text \<open>Lines 69-71.\<close>

definition appendTextField :: "store \<Rightarrow> addr \<Rightarrow> jsval \<Rightarrow> outcome" where
  "appendTextField s this field = appendTextFieldStyle s this field (TextStyleV FULL)"

text \<open>Lines 131-152: three checks, then the unconditional \<^verbatim>\<open>throw\<close> of line 135. The body
  that would build the provider is commented out in the source, and the \<^verbatim>\<open>return this\<close> of
  line 151 is never reached.\<close>

definition appendTextFieldMap :: "store \<Rightarrow> addr \<Rightarrow> jsval \<Rightarrow> jsval \<Rightarrow> outcome" where
  "appendTextFieldMap s this field textLookup =
     (case requireNonNull field ''field'' of Inl e \<Rightarrow> (Inl e, s) | Inr _ \<Rightarrow>
     (case requireInstance field ChronoFieldC ''field'' of Inl e \<Rightarrow> (Inl e, s) | Inr _ \<Rightarrow>
     (case requireNonNull textLookup ''textLookup'' of Inl e \<Rightarrow> (Inl e, s) | Inr _ \<Rightarrow>
        (Inl (IllegalArgumentException not_implemented_msg), s))))"

text \<open>Lines 44-52: the dispatch on the second argument. A call with one argument leaves
  \<^verbatim>\<open>styleOrMap\<close> undefined.\<close>

definition appendText :: "store \<Rightarrow> addr \<Rightarrow> jsval \<Rightarrow> jsval \<Rightarrow> outcome" where
  "appendText s this field styleOrMap =
     (if styleOrMap = Undefined then appendTextField s this field
      else if instanceof styleOrMap TextStyleC then appendTextFieldStyle s this field styleOrMap
      else appendTextFieldMap s this field styleOrMap)"

text \<open>Two stores for concrete examples: one in which no builder has had anything appended,
  and the one left by \<^verbatim>\<open>appendText(DAY_OF_WEEK)\<close> on builder 0 of it.\<close>

definition emptyStore :: store where
  "emptyStore = (\<lambda>a. \<lparr>printerParsers = []\<rparr>)"

definition oneAppended :: store where
  "oneAppended = snd (appendTextField emptyStore 0 (ChronoFieldV (ChronoField ''DayOfWeek'')))"

section \<open>The text engine behind the printer/parser\<close>

text \<open>
  \<^verbatim>\<open>TextPrinterParser\<close> and \<^verbatim>\<open>CldrDateTimeTextProvider\<close> are imported by the source from
  \<^verbatim>\<open>../parser/TextPrinterParser\<close> and \<^verbatim>\<open>./CldrDateTimeTextProvider\<close>; only their constructor
  calls are in the source at hand. What they compute is described by sections 3, 4.1, 4.2 and
  4.3 of the spec, and the definitions of this section follow those sections.
\<close>





























section \<open>Properties of the builder methods\<close>

subsection \<open>Facts shared by the claims\<close>

lemmas checks = requireNonNull_def requireInstance_def

lemma appendTextFieldMap_never_returns:
  "fst (appendTextFieldMap s this field textLookup) \<noteq> Inr r"
  by (simp add: appendTextFieldMap_def checks)

lemma appendTextFieldMap_keeps_store:
  "snd (appendTextFieldMap s this field textLookup) = s"
  by (simp add: appendTextFieldMap_def checks)

lemma appendTextFieldStyle_returns_this:
  "fst (appendTextFieldStyle s this field textStyle) = Inr r \<Longrightarrow> r = this"
  by (simp add: appendTextFieldStyle_def checks split: if_splits)

lemma appendTextFieldStyle_failure_keeps_store:
  "fst (appendTextFieldStyle s this field textStyle) = Inl e \<Longrightarrow>
   snd (appendTextFieldStyle s this field textStyle) = s"
  by (auto simp add: appendTextFieldStyle_def checks split: if_splits)

lemma appendTextFieldStyle_bad_field:
  "\<not> instanceof field ChronoFieldC \<Longrightarrow>
   appendTextFieldStyle s this field textStyle
     = (Inl (InvalidArgumentError
               (if field = Null \<or> field = Undefined then NullOrMissing else WrongKind)
               ''field''), s)"
  by (simp add: appendTextFieldStyle_def checks)

lemma appendTextFieldMap_bad_field:
  "\<not> instanceof field ChronoFieldC \<Longrightarrow>
   appendTextFieldMap s this field textLookup
     = (Inl (InvalidArgumentError
               (if field = Null \<or> field = Undefined then NullOrMissing else WrongKind)
               ''field''), s)"
  by (simp add: appendTextFieldMap_def checks)

lemma appendTextFieldStyle_bad_style:
  "instanceof field ChronoFieldC \<Longrightarrow> \<not> instanceof textStyle TextStyleC \<Longrightarrow>
   appendTextFieldStyle s this field textStyle
     = (Inl (InvalidArgumentError
               (if textStyle = Null \<or> textStyle = Undefined then NullOrMissing else WrongKind)
               ''textStyle''), s)"
  by (cases field) (simp_all add: appendTextFieldStyle_def checks)

lemma oneAppended_printerParsers:
  "printerParsers (oneAppended 0)
   = [TextPrinterParser (ChronoFieldV (ChronoField ''DayOfWeek'')) (TextStyleV FULL)
        CldrDateTimeTextProvider]"
  by (simp add: oneAppended_def appendTextField_def appendTextFieldStyle_def checks
      appendInternal_def emptyStore_def)

subsection \<open>The custom-map form\<close>

text \<open>
  Claim C1, as stated: for a ChronoField \<open>field\<close> and a plain value-to-text map \<open>m\<close>,
  \<^verbatim>\<open>appendText(field, m)\<close> wraps \<open>m\<close> in a custom-map provider and appends a working
  printer/parser. The code does not: at the month field and the map \<open>{1: "JNY", 2: "FBY"}\<close> of
  the spec's example the call throws and the builder's printer/parser sequence stays empty, so
  there is nothing that could print "JNY" or parse "FBY".
\<close>

theorem C1_custom_map_form_counterexample:
  "appendText emptyStore 0 (ChronoFieldV (ChronoField ''MonthOfYear''))
     (ObjectV [(1, ''JNY''), (2, ''FBY'')])
     = (Inl (IllegalArgumentException not_implemented_msg), emptyStore)
   \<and> printerParsers
        (snd (appendText emptyStore 0 (ChronoFieldV (ChronoField ''MonthOfYear''))
               (ObjectV [(1, ''JNY''), (2, ''FBY'')])) 0) = []"
  by (simp add: appendText_def appendTextFieldMap_def checks emptyStore_def)

text \<open>
  Claim C1, amended: for every ChronoField \<open>field\<close> and plain value-to-text map \<open>m\<close>,
  \<^verbatim>\<open>appendText(field, m)\<close> (the appendTextFieldMap form) throws the not-implemented
  exception; no provider is built from \<open>m\<close> and no printer/parser is appended, so the
  receiver's printer/parser sequence is what it was and nothing is printed or parsed through
  \<open>m\<close>.
\<close>

theorem C1_custom_map_form_throws_and_appends_nothing:
  "appendText s this (ChronoFieldV f) (ObjectV m)
     = (Inl (IllegalArgumentException not_implemented_msg), s)
   \<and> printerParsers (snd (appendText s this (ChronoFieldV f) (ObjectV m)) this)
     = printerParsers (s this)"
  by (simp add: appendText_def appendTextFieldMap_def checks)

text \<open>
  Claim C2. For every ChronoField \<open>field\<close> and every argument \<open>textLookup\<close> that is neither
  \<^verbatim>\<open>null\<close> nor \<^verbatim>\<open>undefined\<close>, \<^verbatim>\<open>appendTextFieldMap(field, textLookup)\<close> throws the
  not-implemented exception, and the store is left as it was: no custom-map printer/parser is
  installed.
\<close>

theorem C2_custom_map_form_throws:
  assumes "textLookup \<noteq> Null" and "textLookup \<noteq> Undefined"
  shows "appendTextFieldMap s this (ChronoFieldV f) textLookup
         = (Inl (IllegalArgumentException not_implemented_msg), s)"
  using assms by (simp add: appendTextFieldMap_def checks)

text \<open>Claim C2 at the month field and the map \<open>{1: "JNY", 2: "FBY"}\<close>.\<close>

theorem C2_custom_map_form_throws_witness:
  "ObjectV [(1, ''JNY''), (2, ''FBY'')] \<noteq> Null
   \<and> ObjectV [(1, ''JNY''), (2, ''FBY'')] \<noteq> Undefined
   \<and> appendTextFieldMap emptyStore 0 (ChronoFieldV (ChronoField ''MonthOfYear''))
        (ObjectV [(1, ''JNY''), (2, ''FBY'')])
      = (Inl (IllegalArgumentException not_implemented_msg), emptyStore)"
  using C2_custom_map_form_throws
    [where textLookup = "ObjectV [(1, ''JNY''), (2, ''FBY'')]" and s = emptyStore and this = 0
       and f = "ChronoField ''MonthOfYear''"]
  by simp

subsection \<open>The unimplemented operations\<close>

text \<open>
  Claim C3. Every call of \<^verbatim>\<open>appendLocalizedOffset()\<close> and of \<^verbatim>\<open>appendZoneText()\<close>, in every
  builder state, throws the not-implemented exception (the \<^verbatim>\<open>IllegalArgumentException\<close> with
  the "not implemented yet" message, the spec's NotImplementedError) and produces nothing: the
  store, and with it the printer/parser sequence of every builder, is left as it was.
\<close>

theorem C3_offset_and_zone_text_not_implemented:
  "appendLocalizedOffset s this = (Inl (IllegalArgumentException not_implemented_msg), s)
   \<and> appendZoneText s this = (Inl (IllegalArgumentException not_implemented_msg), s)"
  by (simp add: appendLocalizedOffset_def appendZoneText_def)

subsection \<open>Argument checks\<close>

text \<open>
  Claim C4. Every form of the append-text operation checks its arguments in the call itself.
  If \<open>field\<close> is not a ChronoField (\<^verbatim>\<open>null\<close> and \<^verbatim>\<open>undefined\<close> included), then
  \<^verbatim>\<open>appendTextField\<close>, \<^verbatim>\<open>appendTextFieldStyle\<close>, \<^verbatim>\<open>appendTextFieldMap\<close> and \<^verbatim>\<open>appendText\<close>, with
  any other arguments, fail with an InvalidArgumentError on \<open>field\<close>. If \<open>field\<close> is a
  ChronoField and \<open>textStyle\<close> is not a TextStyle, \<^verbatim>\<open>appendTextFieldStyle\<close> fails with an
  InvalidArgumentError on \<open>textStyle\<close>. In each case the call returns the error and the store
  unchanged: no printer/parser is appended that could fail later, at print or parse time.
\<close>

theorem C4_arguments_checked_at_call_time:
  "(\<not> instanceof field ChronoFieldC \<longrightarrow>
      appendTextField s this field
        = (Inl (InvalidArgumentError
                  (if field = Null \<or> field = Undefined then NullOrMissing else WrongKind)
                  ''field''), s)
    \<and> appendTextFieldStyle s this field textStyle
        = (Inl (InvalidArgumentError
                  (if field = Null \<or> field = Undefined then NullOrMissing else WrongKind)
                  ''field''), s)
    \<and> appendTextFieldMap s this field textLookup
        = (Inl (InvalidArgumentError
                  (if field = Null \<or> field = Undefined then NullOrMissing else WrongKind)
                  ''field''), s)
    \<and> appendText s this field styleOrMap
        = (Inl (InvalidArgumentError
                  (if field = Null \<or> field = Undefined then NullOrMissing else WrongKind)
                  ''field''), s))
   \<and> (instanceof field ChronoFieldC \<and> \<not> instanceof textStyle TextStyleC \<longrightarrow>
      appendTextFieldStyle s this field textStyle
        = (Inl (InvalidArgumentError
                  (if textStyle = Null \<or> textStyle = Undefined then NullOrMissing else WrongKind)
                  ''textStyle''), s))"
  by (simp add: appendText_def appendTextField_def appendTextFieldStyle_bad_field
      appendTextFieldMap_bad_field appendTextFieldStyle_bad_style)

text \<open>Claim C4 at a \<^verbatim>\<open>null\<close> field, and at the month field with the number 3 as style.\<close>

theorem C4_arguments_checked_at_call_time_witness:
  "\<not> instanceof Null ChronoFieldC
   \<and> appendTextField emptyStore 0 Null
       = (Inl (InvalidArgumentError NullOrMissing ''field''), emptyStore)
   \<and> appendTextFieldStyle emptyStore 0 Null (NumberV 3)
       = (Inl (InvalidArgumentError NullOrMissing ''field''), emptyStore)
   \<and> appendTextFieldMap emptyStore 0 Null (ObjectV [(1, ''JNY'')])
       = (Inl (InvalidArgumentError NullOrMissing ''field''), emptyStore)
   \<and> appendText emptyStore 0 Null (TextStyleV SHORT)
       = (Inl (InvalidArgumentError NullOrMissing ''field''), emptyStore)
   \<and> instanceof (ChronoFieldV (ChronoField ''MonthOfYear'')) ChronoFieldC
   \<and> \<not> instanceof (NumberV 3) TextStyleC
   \<and> appendTextFieldStyle emptyStore 0 (ChronoFieldV (ChronoField ''MonthOfYear'')) (NumberV 3)
       = (Inl (InvalidArgumentError WrongKind ''textStyle''), emptyStore)"
  using C4_arguments_checked_at_call_time
      [where field = Null and s = emptyStore and this = 0 and textStyle = "NumberV 3"
         and textLookup = "ObjectV [(1, ''JNY'')]" and styleOrMap = "TextStyleV SHORT"]
    C4_arguments_checked_at_call_time
      [where field = "ChronoFieldV (ChronoField ''MonthOfYear'')" and s = emptyStore and this = 0
         and textStyle = "NumberV 3" and textLookup = Null and styleOrMap = Null]
  by simp

subsection \<open>Dispatch\<close>

text \<open>
  Claim C5. \<^verbatim>\<open>appendText(field, styleOrMap)\<close> dispatches on the shape of \<open>styleOrMap\<close> alone:
  undefined, it is \<^verbatim>\<open>appendTextField(field)\<close>; a TextStyle, it is
  \<^verbatim>\<open>appendTextFieldStyle(field, styleOrMap)\<close>; anything else, it is
  \<^verbatim>\<open>appendTextFieldMap(field, styleOrMap)\<close>. Each equation is between whole outcomes: the
  value returned or exception thrown, and the store.
\<close>

theorem C5_dispatch_by_argument_shape:
  "(styleOrMap = Undefined \<longrightarrow>
      appendText s this field styleOrMap = appendTextField s this field)
   \<and> (instanceof styleOrMap TextStyleC \<longrightarrow>
      appendText s this field styleOrMap = appendTextFieldStyle s this field styleOrMap)
   \<and> (styleOrMap \<noteq> Undefined \<and> \<not> instanceof styleOrMap TextStyleC \<longrightarrow>
      appendText s this field styleOrMap = appendTextFieldMap s this field styleOrMap)"
  by (cases styleOrMap) (simp_all add: appendText_def)

text \<open>Claim C5 at one argument of each shape: undefined, the style SHORT, a string.\<close>

theorem C5_dispatch_by_argument_shape_witness:
  "appendText emptyStore 0 (ChronoFieldV (ChronoField ''DayOfWeek'')) Undefined
     = appendTextField emptyStore 0 (ChronoFieldV (ChronoField ''DayOfWeek''))
   \<and> instanceof (TextStyleV SHORT) TextStyleC
   \<and> appendText emptyStore 0 (ChronoFieldV (ChronoField ''DayOfWeek'')) (TextStyleV SHORT)
     = appendTextFieldStyle emptyStore 0 (ChronoFieldV (ChronoField ''DayOfWeek''))
         (TextStyleV SHORT)
   \<and> StringV ''x'' \<noteq> Undefined \<and> \<not> instanceof (StringV ''x'') TextStyleC
   \<and> appendText emptyStore 0 (ChronoFieldV (ChronoField ''DayOfWeek'')) (StringV ''x'')
     = appendTextFieldMap emptyStore 0 (ChronoFieldV (ChronoField ''DayOfWeek'')) (StringV ''x'')"
  using C5_dispatch_by_argument_shape
      [where styleOrMap = Undefined and s = emptyStore and this = 0
         and field = "ChronoFieldV (ChronoField ''DayOfWeek'')"]
    C5_dispatch_by_argument_shape
      [where styleOrMap = "TextStyleV SHORT" and s = emptyStore and this = 0
         and field = "ChronoFieldV (ChronoField ''DayOfWeek'')"]
    C5_dispatch_by_argument_shape
      [where styleOrMap = "StringV ''x''" and s = emptyStore and this = 0
         and field = "ChronoFieldV (ChronoField ''DayOfWeek'')"]
  by simp

text \<open>
  Claim C6. For every ChronoField \<open>field\<close>, the one-argument form, called as
  \<^verbatim>\<open>appendTextField(field)\<close> or as \<^verbatim>\<open>appendText(field)\<close>, has the outcome of
  \<^verbatim>\<open>appendTextFieldStyle(field, TextStyle.FULL)\<close>: it returns \<^verbatim>\<open>this\<close> and appends the
  printer/parser of \<open>field\<close>, FULL and a new CldrDateTimeTextProvider.
\<close>

theorem C6_default_style_is_FULL:
  "appendTextField s this (ChronoFieldV f)
     = appendTextFieldStyle s this (ChronoFieldV f) (TextStyleV FULL)
   \<and> appendText s this (ChronoFieldV f) Undefined
     = appendTextFieldStyle s this (ChronoFieldV f) (TextStyleV FULL)
   \<and> appendTextFieldStyle s this (ChronoFieldV f) (TextStyleV FULL)
     = (Inr this, appendInternal s this
          (TextPrinterParser (ChronoFieldV f) (TextStyleV FULL) CldrDateTimeTextProvider))"
  by (simp add: appendText_def appendTextField_def appendTextFieldStyle_def checks)

text \<open>
  Claim C7. Every form of the append-text operation, when it does not fail, returns the
  builder it was called on. For \<^verbatim>\<open>appendText\<close>, \<^verbatim>\<open>appendTextField\<close> and
  \<^verbatim>\<open>appendTextFieldStyle\<close>: a returned value is \<^verbatim>\<open>this\<close>. The custom-map form never returns
  a value (its \<^verbatim>\<open>return this\<close> is behind the \<^verbatim>\<open>throw\<close>), which is stated as such rather than
  as an implication whose premise cannot hold.
\<close>

theorem C7_returns_this:
  "(fst (appendText s this field styleOrMap) = Inr r \<longrightarrow> r = this)
   \<and> (fst (appendTextField s this field) = Inr r \<longrightarrow> r = this)
   \<and> (fst (appendTextFieldStyle s this field textStyle) = Inr r \<longrightarrow> r = this)
   \<and> fst (appendTextFieldMap s this field textLookup) \<noteq> Inr r"
  using appendTextFieldStyle_returns_this appendTextFieldMap_never_returns
  by (simp add: appendText_def appendTextField_def)

text \<open>Claim C7 at builder 7 and the era field: each of the three forms that can return does
  return, and returns 7.\<close>

theorem C7_returns_this_witness:
  "fst (appendText emptyStore 7 (ChronoFieldV (ChronoField ''Era'')) (TextStyleV NARROW)) = Inr 7
   \<and> fst (appendTextField emptyStore 7 (ChronoFieldV (ChronoField ''Era''))) = Inr 7
   \<and> fst (appendTextFieldStyle emptyStore 7 (ChronoFieldV (ChronoField ''Era''))
            (TextStyleV NARROW)) = Inr 7
   \<and> fst (appendTextFieldMap emptyStore 7 (ChronoFieldV (ChronoField ''Era''))
            (ObjectV [(0, ''BC'')])) \<noteq> Inr 7"
  using C7_returns_this
    [where s = emptyStore and this = 7 and field = "ChronoFieldV (ChronoField ''Era'')"
       and styleOrMap = "TextStyleV NARROW" and r = 7 and textStyle = "TextStyleV NARROW"
       and textLookup = "ObjectV [(0, ''BC'')]"]
  by (simp add: appendText_def appendTextField_def appendTextFieldStyle_def checks)

text \<open>
  Claim C9. For every ChronoField \<open>field\<close>, \<^verbatim>\<open>appendText(field, null)\<close> is the custom-map form
  (\<^verbatim>\<open>null\<close> is neither undefined nor a TextStyle), fails with the null-argument error on
  \<open>textLookup\<close>, and so differs from the default FULL-style form
  \<^verbatim>\<open>appendTextField(field)\<close>.
\<close>

theorem C9_null_goes_to_map_form:
  "appendText s this (ChronoFieldV f) Null = appendTextFieldMap s this (ChronoFieldV f) Null
   \<and> appendText s this (ChronoFieldV f) Null
     = (Inl (InvalidArgumentError NullOrMissing ''textLookup''), s)
   \<and> appendText s this (ChronoFieldV f) Null \<noteq> appendTextField s this (ChronoFieldV f)"
  by (simp add: appendText_def appendTextField_def appendTextFieldStyle_def
      appendTextFieldMap_def checks)

subsection \<open>Failing calls\<close>

text \<open>
  Claim C10. A builder operation that throws leaves the formatter under construction as it
  was: whenever \<^verbatim>\<open>appendTextFieldMap\<close>, \<^verbatim>\<open>appendLocalizedOffset\<close> or \<^verbatim>\<open>appendZoneText\<close> (and
  likewise \<^verbatim>\<open>appendTextFieldStyle\<close>, \<^verbatim>\<open>appendTextField\<close> or \<^verbatim>\<open>appendText\<close>) throws, the
  store after the call is the store before it, so the printer/parser sequence of every
  builder is unchanged.
\<close>

theorem C10_failing_calls_leave_the_builder_unchanged:
  "(fst (appendTextFieldMap s this field textLookup) = Inl e \<longrightarrow>
      snd (appendTextFieldMap s this field textLookup) = s)
   \<and> (fst (appendLocalizedOffset s this) = Inl e \<longrightarrow> snd (appendLocalizedOffset s this) = s)
   \<and> (fst (appendZoneText s this) = Inl e \<longrightarrow> snd (appendZoneText s this) = s)
   \<and> (fst (appendTextFieldStyle s this field textStyle) = Inl e \<longrightarrow>
      snd (appendTextFieldStyle s this field textStyle) = s)
   \<and> (fst (appendTextField s this field) = Inl e \<longrightarrow> snd (appendTextField s this field) = s)
   \<and> (fst (appendText s this field styleOrMap) = Inl e \<longrightarrow>
      snd (appendText s this field styleOrMap) = s)"
  by (simp add: appendTextFieldMap_keeps_store appendLocalizedOffset_def appendZoneText_def
      appendTextFieldStyle_failure_keeps_store appendText_def appendTextField_def)

text \<open>Claim C10 on a builder that already holds one printer/parser: the failing calls throw,
  and the sequence still holds exactly that printer/parser.\<close>

theorem C10_failing_calls_leave_the_builder_unchanged_witness:
  "fst (appendTextFieldMap oneAppended 0 (ChronoFieldV (ChronoField ''MonthOfYear''))
          (ObjectV [(1, ''JNY'')]))
     = Inl (IllegalArgumentException not_implemented_msg)
   \<and> fst (appendLocalizedOffset oneAppended 0) = Inl (IllegalArgumentException not_implemented_msg)
   \<and> fst (appendZoneText oneAppended 0) = Inl (IllegalArgumentException not_implemented_msg)
   \<and> fst (appendTextFieldStyle oneAppended 0 (ChronoFieldV (ChronoField ''MonthOfYear'')) Null)
     = Inl (InvalidArgumentError NullOrMissing ''textStyle'')
   \<and> printerParsers
        (snd (appendTextFieldMap oneAppended 0 (ChronoFieldV (ChronoField ''MonthOfYear''))
               (ObjectV [(1, ''JNY'')])) 0)
      = [TextPrinterParser (ChronoFieldV (ChronoField ''DayOfWeek'')) (TextStyleV FULL)
           CldrDateTimeTextProvider]
   \<and> printerParsers (snd (appendLocalizedOffset oneAppended 0) 0) = printerParsers (oneAppended 0)
   \<and> printerParsers (snd (appendZoneText oneAppended 0) 0) = printerParsers (oneAppended 0)
   \<and> printerParsers
        (snd (appendTextFieldStyle oneAppended 0 (ChronoFieldV (ChronoField ''MonthOfYear''))
               Null) 0)
      = printerParsers (oneAppended 0)"
proof -
  let ?e = "IllegalArgumentException not_implemented_msg"
  let ?f = "ChronoFieldV (ChronoField ''MonthOfYear'')"
  have f1: "fst (appendTextFieldMap oneAppended 0 ?f (ObjectV [(1, ''JNY'')])) = Inl ?e"
    by (simp add: appendTextFieldMap_def checks)
  have f2: "fst (appendLocalizedOffset oneAppended 0) = Inl ?e"
    by (simp add: appendLocalizedOffset_def)
  have f3: "fst (appendZoneText oneAppended 0) = Inl ?e"
    by (simp add: appendZoneText_def)
  have f4: "fst (appendTextFieldStyle oneAppended 0 ?f Null)
      = Inl (InvalidArgumentError NullOrMissing ''textStyle'')"
    by (simp add: appendTextFieldStyle_def checks)
  show ?thesis
    using C10_failing_calls_leave_the_builder_unchanged
      [where s = oneAppended and this = 0 and field = ?f and textLookup = "ObjectV [(1, ''JNY'')]"
         and e = ?e and textStyle = Null and styleOrMap = Null]
      C10_failing_calls_leave_the_builder_unchanged
      [where s = oneAppended and this = 0 and field = ?f and textLookup = Null
         and e = "InvalidArgumentError NullOrMissing ''textStyle''" and textStyle = Null
         and styleOrMap = Null]
      oneAppended_printerParsers f1 f2 f3 f4
    by simp
qed

section \<open>Properties of the text engine\<close>

subsection \<open>Facts about matching and candidates\<close>





















subsection \<open>Printing, then parsing\<close>




end
